theory Spec2Isabelle
  imports Main
begin

section \<open>The script \<^verbatim>\<open>scripts/get_musicbrainz_discid.py\<close>\<close>

text \<open>
  The script is a module body of three blocks: the guarded import of the provider
  library (lines 8 to 13), the check of the argument list (lines 15 to 19) and the
  guarded call of the provider (lines 21 to 26). Everything outside the script is the
  environment: whether \<^verbatim>\<open>import discid\<close> succeeds, what \<^verbatim>\<open>discid.read\<close> does on
  a device, and the argument list \<^verbatim>\<open>sys.argv\<close>.
\<close>

subsection \<open>Exceptions and the environment\<close>

text \<open>
  The exception classes the script can meet. \<open>ImportError\<close> and \<open>DiscError\<close> are the two
  classes named by its \<^verbatim>\<open>except\<close> clauses (each stands for the class and its
  subclasses), \<open>IndexError\<close> is what \<^verbatim>\<open>sys.argv[0]\<close> raises on an empty list, and
  \<open>OtherException cls msg\<close> is any other subclass of \<^verbatim>\<open>Exception\<close>. The string carried
  by an exception is what \<^verbatim>\<open>str(e)\<close> returns.
\<close>

datatype py_exception =
    ImportError string
  | DiscError string
  | IndexError string
  | OtherException string string

text \<open>
  \<^verbatim>\<open>discid.read(device)\<close> returns a disc object, of which the script reads only the
  attribute \<^verbatim>\<open>id\<close>, or raises.
\<close>

datatype read_result = Disc string | Read_raises py_exception

record environment =
  import_discid :: "py_exception option"  \<comment> \<open>\<open>None\<close>: the import succeeds\<close>
  discid_read :: "string \<Rightarrow> read_result"

subsection \<open>Effects of the script\<close>

text \<open>
  The state threaded through the script: the text written to the two streams, and the
  devices \<^verbatim>\<open>discid.read\<close> has been called with, in order.
\<close>

record streams =
  stdout :: string
  stderr :: string
  read_calls :: "string list"

definition start :: streams where
  "start = \<lparr>stdout = [], stderr = [], read_calls = []\<rparr>"

text \<open>
  How the module body ends: it runs to its last line, it calls \<^verbatim>\<open>sys.exit(n)\<close>, or an
  exception leaves it uncaught.
\<close>

datatype completion = Finished | SystemExit nat | Raised py_exception

definition newline :: string where
  "newline = [CHR 0x0A]"

text \<open>\<^verbatim>\<open>print(s)\<close> and \<^verbatim>\<open>print(s, file=sys.stderr)\<close>: the text and a line end.\<close>

definition print_stdout :: "string \<Rightarrow> streams \<Rightarrow> streams" where
  "print_stdout s st = st\<lparr>stdout := stdout st @ s @ newline\<rparr>"

definition print_stderr :: "string \<Rightarrow> streams \<Rightarrow> streams" where
  "print_stderr s st = st\<lparr>stderr := stderr st @ s @ newline\<rparr>"

subsection \<open>The three blocks\<close>

text \<open>
  The tests of the two \<^verbatim>\<open>except\<close> clauses, and \<^verbatim>\<open>str(e)\<close> as the f-string
  \<^verbatim>\<open>f"ERROR: {e}"\<close> reads it.
\<close>

fun is_ImportError :: "py_exception \<Rightarrow> bool" where
  "is_ImportError (ImportError m) = True"
| "is_ImportError e = False"

fun is_DiscError :: "py_exception \<Rightarrow> bool" where
  "is_DiscError (DiscError m) = True"
| "is_DiscError e = False"

fun py_str :: "py_exception \<Rightarrow> string" where
  "py_str (ImportError m) = m"
| "py_str (DiscError m) = m"
| "py_str (IndexError m) = m"
| "py_str (OtherException cls m) = m"

text \<open>
  Lines 10 to 13: the handler of the import. Only \<^verbatim>\<open>ImportError\<close> is caught; any other
  exception of the import leaves the script.
\<close>

definition import_handler :: "py_exception \<Rightarrow> streams \<Rightarrow> streams \<times> completion" where
  "import_handler e st =
     (if is_ImportError e then
        (print_stderr ''Install with: pip3 install --break-system-packages discid''
           (print_stderr ''ERROR: python-discid not installed'' st),
         SystemExit 1)
      else (st, Raised e))"

text \<open>
  Lines 24 to 26: the handler of the provider call. Only \<^verbatim>\<open>discid.DiscError\<close> is
  caught.
\<close>

definition read_handler :: "py_exception \<Rightarrow> streams \<Rightarrow> streams \<times> completion" where
  "read_handler e st =
     (if is_DiscError e then (print_stderr (''ERROR: '' @ py_str e) st, SystemExit 1)
      else (st, Raised e))"

text \<open>Lines 21 to 26: one call of \<^verbatim>\<open>discid.read\<close>, then the print or the handler.\<close>

definition read_disc :: "environment \<Rightarrow> string \<Rightarrow> streams \<Rightarrow> streams \<times> completion" where
  "read_disc env device st =
     (let st1 = st\<lparr>read_calls := read_calls st @ [device]\<rparr>
      in case discid_read env device of
           Disc i \<Rightarrow> (print_stdout i st1, Finished)
         | Read_raises e \<Rightarrow> read_handler e st1)"

text \<open>
  Lines 15 to 19: the check \<^verbatim>\<open>len(sys.argv) < 2\<close>. The usage line reads
  \<^verbatim>\<open>sys.argv[0]\<close>, which raises \<^verbatim>\<open>IndexError\<close> on an empty argument list; with two or
  more entries the device is \<^verbatim>\<open>sys.argv[1]\<close>.
\<close>

definition check_argv :: "environment \<Rightarrow> string list \<Rightarrow> streams \<Rightarrow> streams \<times> completion" where
  "check_argv env argv st =
     (if length argv < 2 then
        (case argv of
           [] \<Rightarrow> (st, Raised (IndexError ''list index out of range''))
         | prog # _ \<Rightarrow> (print_stderr (''Usage: '' @ prog @ '' <device>'') st, SystemExit 1))
      else read_disc env (argv ! 1) st)"

text \<open>The module body, lines 8 to 26.\<close>

definition get_musicbrainz_discid :: "environment \<Rightarrow> string list \<Rightarrow> streams \<times> completion" where
  "get_musicbrainz_discid env argv =
     (case import_discid env of
        Some e \<Rightarrow> import_handler e start
      | None \<Rightarrow> check_argv env argv start)"

subsection \<open>The process\<close>

text \<open>
  What the interpreter makes of the module body's end: exit status 0 after the last
  line, the argument of \<^verbatim>\<open>sys.exit\<close> (its low eight bits), and for an uncaught
  exception a traceback on the error stream and exit status 1. The traceback's text
  depends on the interpreter, so the model records the exception it reports rather
  than a text.
\<close>

record process =
  p_stdout :: string
  p_stderr :: string
  p_traceback :: "py_exception option"
  p_read_calls :: "string list"
  exit_status :: nat

fun status_of :: "completion \<Rightarrow> nat" where
  "status_of Finished = 0"
| "status_of (SystemExit n) = n mod 256"
| "status_of (Raised e) = 1"

fun traceback_of :: "completion \<Rightarrow> py_exception option" where
  "traceback_of (Raised e) = Some e"
| "traceback_of c = None"

definition run :: "environment \<Rightarrow> string list \<Rightarrow> process" where
  "run env argv =
     (case get_musicbrainz_discid env argv of
        (st, c) \<Rightarrow>
          \<lparr>p_stdout = stdout st, p_stderr = stderr st, p_traceback = traceback_of c,
           p_read_calls = read_calls st, exit_status = status_of c\<rparr>)"

text \<open>The usage line of the script for a program name.\<close>

definition usage_line :: "string \<Rightarrow> string" where
  "usage_line prog = ''Usage: '' @ prog @ '' <device>'' @ newline"

text \<open>The two lines the script prints when the import fails.\<close>

definition dependency_lines :: string where
  "dependency_lines =
     ''ERROR: python-discid not installed'' @ newline @
     ''Install with: pip3 install --break-system-packages discid'' @ newline"

subsection \<open>Example environments\<close>

text \<open>The library loads and reads every device.\<close>

definition env_ok :: environment where
  "env_ok = \<lparr>import_discid = None, discid_read = (\<lambda>d. Disc ''abc123XYZ'')\<rparr>"

text \<open>The library loads and finds no disc.\<close>

definition env_no_disc :: environment where
  "env_no_disc =
     \<lparr>import_discid = None,
      discid_read = (\<lambda>d. Read_raises (DiscError ''no disc in drive''))\<rparr>"

text \<open>The library is not installed.\<close>

definition env_missing :: environment where
  "env_missing =
     \<lparr>import_discid = Some (ImportError ''No module named discid''),
      discid_read = (\<lambda>d. Disc ''abc123XYZ'')\<rparr>"

text \<open>The library loads and its read fails with an exception that is no \<^verbatim>\<open>DiscError\<close>.\<close>

definition env_broken :: environment where
  "env_broken =
     \<lparr>import_discid = None,
      discid_read = (\<lambda>d. Read_raises (OtherException ''OSError'' ''device busy''))\<rparr>"

text \<open>
  The Python package is installed and its import fails with an exception that is no
  \<^verbatim>\<open>ImportError\<close>, as python-discid does when the native library is absent.
\<close>

definition env_no_native :: environment where
  "env_no_native =
     \<lparr>import_discid = Some (OtherException ''OSError'' ''libdiscid not found''),
      discid_read = (\<lambda>d. Disc ''abc123XYZ'')\<rparr>"

section \<open>Properties\<close>

subsection \<open>Evaluating the script\<close>

lemma run_import_error:
  "import_discid env = Some (ImportError m) \<Longrightarrow>
   run env argv =
     \<lparr>p_stdout = [], p_stderr = dependency_lines, p_traceback = None,
      p_read_calls = [], exit_status = 1\<rparr>"
  by (simp add: run_def get_musicbrainz_discid_def import_handler_def start_def
      print_stderr_def dependency_lines_def)

lemma run_read_ok:
  "import_discid env = None \<Longrightarrow> 2 \<le> length argv \<Longrightarrow>
   discid_read env (argv ! 1) = Disc s \<Longrightarrow>
   run env argv =
     \<lparr>p_stdout = s @ newline, p_stderr = [], p_traceback = None,
      p_read_calls = [argv ! 1], exit_status = 0\<rparr>"
  by (simp add: run_def get_musicbrainz_discid_def check_argv_def read_disc_def
      start_def print_stdout_def)

lemma run_usage:
  "import_discid env = None \<Longrightarrow>
   run env [prog] =
     \<lparr>p_stdout = [], p_stderr = usage_line prog, p_traceback = None,
      p_read_calls = [], exit_status = 1\<rparr>"
  by (simp add: run_def get_musicbrainz_discid_def check_argv_def start_def
      print_stderr_def usage_line_def)

lemma run_empty_argv:
  "import_discid env = None \<Longrightarrow>
   run env [] =
     \<lparr>p_stdout = [], p_stderr = [],
      p_traceback = Some (IndexError ''list index out of range''),
      p_read_calls = [], exit_status = 1\<rparr>"
  by (simp add: run_def get_musicbrainz_discid_def check_argv_def start_def)

lemma run_import_other:
  "import_discid env = Some e \<Longrightarrow> \<not> is_ImportError e \<Longrightarrow>
   run env argv =
     \<lparr>p_stdout = [], p_stderr = [], p_traceback = Some e,
      p_read_calls = [], exit_status = 1\<rparr>"
  by (simp add: run_def get_musicbrainz_discid_def import_handler_def start_def)

lemma run_import_caught:
  "import_discid env = Some e \<Longrightarrow> is_ImportError e \<Longrightarrow>
   run env argv =
     \<lparr>p_stdout = [], p_stderr = dependency_lines, p_traceback = None,
      p_read_calls = [], exit_status = 1\<rparr>"
  by (simp add: run_def get_musicbrainz_discid_def import_handler_def start_def
      print_stderr_def dependency_lines_def)

lemma run_disc_error:
  "import_discid env = None \<Longrightarrow> 2 \<le> length argv \<Longrightarrow>
   discid_read env (argv ! 1) = Read_raises e \<Longrightarrow> is_DiscError e \<Longrightarrow>
   run env argv =
     \<lparr>p_stdout = [], p_stderr = ''ERROR: '' @ py_str e @ newline, p_traceback = None,
      p_read_calls = [argv ! 1], exit_status = 1\<rparr>"
  by (simp add: run_def get_musicbrainz_discid_def check_argv_def read_disc_def
      read_handler_def start_def print_stderr_def)

lemma run_read_other:
  "import_discid env = None \<Longrightarrow> 2 \<le> length argv \<Longrightarrow>
   discid_read env (argv ! 1) = Read_raises e \<Longrightarrow> \<not> is_DiscError e \<Longrightarrow>
   run env argv =
     \<lparr>p_stdout = [], p_stderr = [], p_traceback = Some e,
      p_read_calls = [argv ! 1], exit_status = 1\<rparr>"
  by (simp add: run_def get_musicbrainz_discid_def check_argv_def read_disc_def
      read_handler_def start_def)

lemma length_one: "length xs = Suc 0 \<Longrightarrow> \<exists>x. xs = [x]"
  by (cases xs) auto

lemma usage_line_nonempty: "usage_line p \<noteq> []"
  by (simp add: usage_line_def)

lemma dependency_lines_nonempty: "dependency_lines \<noteq> []"
  by (simp add: dependency_lines_def)

lemma dependency_not_usage: "dependency_lines \<noteq> usage_line p"
  by (simp add: dependency_lines_def usage_line_def)

lemma error_not_usage: "''ERROR: '' @ m @ newline \<noteq> usage_line p"
  by (simp add: usage_line_def)

lemma short_argv: "\<not> 2 \<le> length argv \<Longrightarrow> argv = [] \<or> (\<exists>prog. argv = [prog])"
  by (cases argv) (auto simp: Suc_le_eq)

lemma read_calls_run:
  "p_read_calls (run env argv) =
     (if import_discid env = None \<and> 2 \<le> length argv then [argv ! 1] else [])"
proof (cases "import_discid env")
  case (Some e)
  then show ?thesis
    by (cases "is_ImportError e") (simp_all add: run_import_caught run_import_other)
next
  case None
  show ?thesis
  proof (cases "2 \<le> length argv")
    case False
    then have "argv = [] \<or> (\<exists>prog. argv = [prog])"
      by (rule short_argv)
    with None show ?thesis
      by (auto simp: run_empty_argv run_usage)
  next
    case True
    show ?thesis
    proof (cases "discid_read env (argv ! 1)")
      case (Disc s)
      with None True show ?thesis by (simp add: run_read_ok)
    next
      case (Read_raises e)
      with None True show ?thesis
        by (cases "is_DiscError e") (simp_all add: run_disc_error run_read_other)
    qed
  qed
qed

lemma no_usage_with_device:
  assumes "2 \<le> length argv"
  shows "p_stderr (run env argv) \<noteq> usage_line p"
proof (cases "import_discid env")
  case (Some e)
  then show ?thesis
    using dependency_not_usage [of p] usage_line_nonempty [of p]
    by (cases "is_ImportError e") (simp_all add: run_import_caught run_import_other)
next
  case None
  show ?thesis
  proof (cases "discid_read env (argv ! 1)")
    case (Disc s)
    with None assms show ?thesis
      using usage_line_nonempty [of p] by (simp add: run_read_ok)
  next
    case (Read_raises e)
    with None assms show ?thesis
      using usage_line_nonempty [of p] error_not_usage [of "py_str e" p]
      by (cases "is_DiscError e") (simp_all add: run_disc_error run_read_other)
  qed
qed

lemma script_extra_arguments:
  "get_musicbrainz_discid env (prog # device # rest) =
   get_musicbrainz_discid env [prog, device]"
  by (simp add: get_musicbrainz_discid_def check_argv_def split: option.splits)

lemma run_extra_arguments:
  "run env (prog # device # rest) = run env [prog, device]"
  unfolding run_def using script_extra_arguments [of env prog device rest] by simp

subsection \<open>The claims\<close>

text \<open>
  C1. When the library loads, a device path is given and \<^verbatim>\<open>discid.read\<close> returns a
  disc with ID \<open>s\<close>, standard output holds exactly \<open>s\<close> and a line end, and the exit
  status is 0.
\<close>

theorem success_prints_id:
  assumes "import_discid env = None"
    and "2 \<le> length argv"
    and "discid_read env (argv ! 1) = Disc s"
  shows "p_stdout (run env argv) = s @ newline \<and> exit_status (run env argv) = 0"
  using assms by (simp add: run_read_ok)

theorem success_prints_id_witness:
  "import_discid env_ok = None \<and> 2 \<le> length [''prog'', ''/dev/sr0'']
   \<and> discid_read env_ok ([''prog'', ''/dev/sr0''] ! 1) = Disc ''abc123XYZ''
   \<and> p_stdout (run env_ok [''prog'', ''/dev/sr0'']) = ''abc123XYZ'' @ [CHR 0x0A]
   \<and> exit_status (run env_ok [''prog'', ''/dev/sr0'']) = 0"
  using success_prints_id [of env_ok "[''prog'', ''/dev/sr0'']" "''abc123XYZ''"]
  by (simp add: env_ok_def newline_def)

text \<open>
  C2. When the library loads, a device path is given and \<^verbatim>\<open>discid.read\<close> raises a
  \<^verbatim>\<open>DiscError\<close> with message \<open>m\<close>, the error stream holds exactly \<open>ERROR: \<close>, then
  \<open>m\<close> unchanged, then the line end of \<^verbatim>\<open>print\<close>; standard output is empty and
  the exit status is not 0.
\<close>

theorem disc_error_reported:
  assumes "import_discid env = None"
    and "2 \<le> length argv"
    and "discid_read env (argv ! 1) = Read_raises (DiscError m)"
  shows "p_stderr (run env argv) = ''ERROR: '' @ m @ newline
    \<and> p_stdout (run env argv) = []
    \<and> exit_status (run env argv) \<noteq> 0"
  using assms by (simp add: run_disc_error)

theorem disc_error_reported_witness:
  "import_discid env_no_disc = None \<and> 2 \<le> length [''prog'', ''/dev/sr0'']
   \<and> discid_read env_no_disc ([''prog'', ''/dev/sr0''] ! 1)
       = Read_raises (DiscError ''no disc in drive'')
   \<and> p_stderr (run env_no_disc [''prog'', ''/dev/sr0''])
       = ''ERROR: no disc in drive'' @ [CHR 0x0A]
   \<and> p_stdout (run env_no_disc [''prog'', ''/dev/sr0'']) = []
   \<and> exit_status (run env_no_disc [''prog'', ''/dev/sr0'']) \<noteq> 0"
  using disc_error_reported [of env_no_disc "[''prog'', ''/dev/sr0'']" "''no disc in drive''"]
  by (simp add: env_no_disc_def newline_def)

text \<open>
  C3, as stated, fails on the script. The check is \<^verbatim>\<open>len(sys.argv) < 2\<close>: with two
  positional arguments the script prints no usage line, calls the provider with the
  first and exits with status 0. And the check comes after the import: when the import
  fails, an argument list of the wrong length gets the two dependency lines, not a
  usage line.
\<close>

theorem extra_arguments_no_usage:
  "length [''prog'', ''/dev/sr0'', ''extra''] - 1 \<noteq> 1
   \<and> p_stderr (run env_ok [''prog'', ''/dev/sr0'', ''extra'']) = []
   \<and> p_read_calls (run env_ok [''prog'', ''/dev/sr0'', ''extra'']) = [''/dev/sr0'']
   \<and> exit_status (run env_ok [''prog'', ''/dev/sr0'', ''extra'']) = 0
   \<and> length [''prog''] - 1 \<noteq> 1
   \<and> p_stderr (run env_missing [''prog''])
       = ''ERROR: python-discid not installed'' @ [CHR 0x0A] @
         ''Install with: pip3 install --break-system-packages discid'' @ [CHR 0x0A]"
  by (simp add: run_def get_musicbrainz_discid_def check_argv_def read_disc_def
      import_handler_def start_def print_stdout_def print_stderr_def env_ok_def
      env_missing_def newline_def)

text \<open>
  C3, amended. When the library loads and the argument list holds the program name and
  nothing else, the error stream holds the usage line for \<^verbatim>\<open>sys.argv[0]\<close>, the exit
  status is not 0 and the provider has not been called.
\<close>

theorem missing_argument_usage:
  assumes "import_discid env = None"
    and "length argv = 1"
  shows "p_stderr (run env argv) = usage_line (argv ! 0)
    \<and> exit_status (run env argv) \<noteq> 0
    \<and> p_read_calls (run env argv) = []"
proof -
  from assms(2) obtain prog where "argv = [prog]"
    using length_one by auto
  with assms(1) show ?thesis
    by (simp add: run_usage)
qed

theorem missing_argument_usage_witness:
  "import_discid env_ok = None \<and> length [''prog''] = 1
   \<and> p_stderr (run env_ok [''prog'']) = ''Usage: prog <device>'' @ [CHR 0x0A]
   \<and> exit_status (run env_ok [''prog'']) \<noteq> 0
   \<and> p_read_calls (run env_ok [''prog'']) = []"
  using missing_argument_usage [of env_ok "[''prog'']"]
  by (simp add: env_ok_def usage_line_def newline_def)

text \<open>
  C4, as stated, fails on the script. The handler of the import names one class,
  \<^verbatim>\<open>ImportError\<close>. When the library cannot be loaded and the import raises anything
  else, the script prints neither the line naming \<^verbatim>\<open>python-discid\<close> nor the
  installation hint: it writes nothing, and the exception leaves it uncaught.
\<close>

theorem import_other_exception_no_hint:
  "import_discid env_no_native = Some (OtherException ''OSError'' ''libdiscid not found'')
   \<and> get_musicbrainz_discid env_no_native [''prog'', ''/dev/sr0''] =
       (\<lparr>stdout = [], stderr = [], read_calls = []\<rparr>,
        Raised (OtherException ''OSError'' ''libdiscid not found''))
   \<and> p_stderr (run env_no_native [''prog'', ''/dev/sr0'']) = []
   \<and> p_traceback (run env_no_native [''prog'', ''/dev/sr0''])
       = Some (OtherException ''OSError'' ''libdiscid not found'')"
  by (simp add: run_def get_musicbrainz_discid_def import_handler_def start_def
      env_no_native_def)

text \<open>
  C4, amended. When \<^verbatim>\<open>import discid\<close> raises \<^verbatim>\<open>ImportError\<close>, then for every argument
  list the error stream holds the two dependency lines (the first names
  \<^verbatim>\<open>python-discid\<close> as not installed, the second gives the \<^verbatim>\<open>pip3\<close> command),
  nothing is written to standard output, the provider is not called, and the exit
  status is not 0.
\<close>

theorem missing_dependency_reported:
  assumes "import_discid env = Some (ImportError m)"
  shows "p_stderr (run env argv) = dependency_lines
    \<and> p_stdout (run env argv) = []
    \<and> p_read_calls (run env argv) = []
    \<and> exit_status (run env argv) \<noteq> 0"
  using assms by (simp add: run_import_error)

theorem missing_dependency_reported_witness:
  "import_discid env_missing = Some (ImportError ''No module named discid'')
   \<and> p_stderr (run env_missing [''prog'', ''/dev/sr0'', ''extra''])
       = ''ERROR: python-discid not installed'' @ [CHR 0x0A] @
         ''Install with: pip3 install --break-system-packages discid'' @ [CHR 0x0A]
   \<and> p_stdout (run env_missing [''prog'', ''/dev/sr0'', ''extra'']) = []
   \<and> p_read_calls (run env_missing [''prog'', ''/dev/sr0'', ''extra'']) = []
   \<and> exit_status (run env_missing [''prog'', ''/dev/sr0'', ''extra'']) \<noteq> 0"
  using missing_dependency_reported
    [of env_missing "''No module named discid''" "[''prog'', ''/dev/sr0'', ''extra'']"]
  by (simp add: env_missing_def dependency_lines_def newline_def)

text \<open>
  C5. For every environment and argument list one of two things holds. Either the
  provider returned a disc with ID \<open>s\<close>, standard output holds \<open>s\<close> and a line end,
  nothing reaches the error stream and the exit status is 0. Or standard output is
  empty, something reaches the error stream (a line the script prints, or the
  interpreter's traceback of an uncaught exception) and the exit status is not 0.
  And whenever the read raises, standard output is empty.
\<close>

theorem outputs_exclusive:
  "(((\<exists>s. import_discid env = None \<and> 2 \<le> length argv
          \<and> discid_read env (argv ! 1) = Disc s
          \<and> p_stdout (run env argv) = s @ newline)
       \<and> p_stderr (run env argv) = [] \<and> p_traceback (run env argv) = None
       \<and> exit_status (run env argv) = 0)
     \<or> (p_stdout (run env argv) = []
       \<and> (p_stderr (run env argv) \<noteq> [] \<or> p_traceback (run env argv) \<noteq> None)
       \<and> exit_status (run env argv) \<noteq> 0))
   \<and> (\<forall>e. discid_read env (argv ! 1) = Read_raises e \<longrightarrow> p_stdout (run env argv) = [])"
proof (cases "import_discid env")
  case (Some e)
  then show ?thesis
    using dependency_lines_nonempty
    by (cases "is_ImportError e") (simp_all add: run_import_caught run_import_other)
next
  case None
  show ?thesis
  proof (cases "2 \<le> length argv")
    case False
    then have "argv = [] \<or> (\<exists>prog. argv = [prog])"
      by (rule short_argv)
    with None show ?thesis
      using usage_line_nonempty by (auto simp: run_empty_argv run_usage)
  next
    case True
    show ?thesis
    proof (cases "discid_read env (argv ! 1)")
      case (Disc s)
      with None True show ?thesis by (simp add: run_read_ok)
    next
      case (Read_raises e)
      with None True show ?thesis
        by (cases "is_DiscError e")
          (simp_all add: run_disc_error run_read_other newline_def)
    qed
  qed
qed

theorem outputs_exclusive_witness:
  "discid_read env_no_disc ([''prog'', ''/dev/sr0''] ! 1)
     = Read_raises (DiscError ''no disc in drive'')
   \<and> p_stdout (run env_no_disc [''prog'', ''/dev/sr0'']) = []
   \<and> p_stderr (run env_no_disc [''prog'', ''/dev/sr0'']) \<noteq> []
   \<and> exit_status (run env_no_disc [''prog'', ''/dev/sr0'']) \<noteq> 0"
  using outputs_exclusive [of env_no_disc "[''prog'', ''/dev/sr0'']"]
  by (simp add: run_def get_musicbrainz_discid_def check_argv_def read_disc_def
      read_handler_def start_def print_stderr_def env_no_disc_def)

text \<open>
  C6. The exit status is exactly 0 when the read succeeds, and exactly 1 when the
  import raises \<^verbatim>\<open>ImportError\<close>, when the library loads and no device argument is
  given, and when the read raises \<^verbatim>\<open>DiscError\<close>.
\<close>

theorem exit_status_exact:
  "(import_discid env = None \<and> 2 \<le> length argv \<and> discid_read env (argv ! 1) = Disc s
      \<longrightarrow> exit_status (run env argv) = 0)
   \<and> (import_discid env = Some (ImportError m) \<longrightarrow> exit_status (run env argv) = 1)
   \<and> (import_discid env = None \<and> length argv = 1 \<longrightarrow> exit_status (run env argv) = 1)
   \<and> (import_discid env = None \<and> 2 \<le> length argv
        \<and> discid_read env (argv ! 1) = Read_raises (DiscError m')
      \<longrightarrow> exit_status (run env argv) = 1)"
proof -
  have "exit_status (run env argv) = 1" if "import_discid env = None" "length argv = 1"
  proof -
    from that(2) obtain prog where "argv = [prog]"
      using length_one by auto
    with that(1) show ?thesis by (simp add: run_usage)
  qed
  then show ?thesis
    by (simp add: run_read_ok run_import_error run_disc_error)
qed

theorem exit_status_exact_witness:
  "(import_discid env_ok = None \<and> 2 \<le> length [''prog'', ''/dev/sr0'']
      \<and> discid_read env_ok ([''prog'', ''/dev/sr0''] ! 1) = Disc ''abc123XYZ''
      \<and> exit_status (run env_ok [''prog'', ''/dev/sr0'']) = 0)
   \<and> (import_discid env_missing = Some (ImportError ''No module named discid'')
      \<and> exit_status (run env_missing [''prog'', ''/dev/sr0'']) = 1)
   \<and> (import_discid env_ok = None \<and> length [''prog''] = 1
      \<and> exit_status (run env_ok [''prog'']) = 1)
   \<and> (import_discid env_no_disc = None \<and> 2 \<le> length [''prog'', ''/dev/sr0'']
      \<and> discid_read env_no_disc ([''prog'', ''/dev/sr0''] ! 1)
          = Read_raises (DiscError ''no disc in drive'')
      \<and> exit_status (run env_no_disc [''prog'', ''/dev/sr0'']) = 1)"
  using exit_status_exact [of env_ok "[''prog'', ''/dev/sr0'']" "''abc123XYZ''"]
    exit_status_exact [of env_missing _ _ "''No module named discid''" ]
    exit_status_exact [of env_ok "[''prog'']"]
    exit_status_exact [of env_no_disc "[''prog'', ''/dev/sr0'']" _ _ "''no disc in drive''"]
  by (simp add: env_ok_def env_missing_def env_no_disc_def)

text \<open>
  C7, as stated, fails on the script: the import is checked before the argument list,
  so with the library missing and no argument the error stream holds the two dependency
  lines and no usage line.
\<close>

theorem no_arguments_missing_dependency:
  "p_stderr (run env_missing [''prog''])
     = ''ERROR: python-discid not installed'' @ [CHR 0x0A] @
       ''Install with: pip3 install --break-system-packages discid'' @ [CHR 0x0A]
   \<and> p_stderr (run env_missing [''prog'']) \<noteq> usage_line ''prog''"
  by (simp add: run_def get_musicbrainz_discid_def import_handler_def start_def
      print_stderr_def env_missing_def newline_def usage_line_def)

text \<open>
  C7, amended. When the library loads and the argument list is the program name alone,
  the script writes exactly the usage line, which carries \<^verbatim>\<open>sys.argv[0]\<close> between
  \<open>Usage: \<close> and \<open> <device>\<close>, to the error stream, writes nothing to standard output,
  does not call the provider and exits with status 1.
\<close>

theorem no_arguments_usage:
  assumes "import_discid env = None"
  shows "run env [prog] =
     \<lparr>p_stdout = [], p_stderr = ''Usage: '' @ prog @ '' <device>'' @ newline,
      p_traceback = None, p_read_calls = [], exit_status = 1\<rparr>"
  using assms by (simp add: run_usage usage_line_def)

theorem no_arguments_usage_witness:
  "import_discid env_no_disc = None
   \<and> run env_no_disc [''./get_musicbrainz_discid.py''] =
     \<lparr>p_stdout = [],
      p_stderr = ''Usage: ./get_musicbrainz_discid.py <device>'' @ [CHR 0x0A],
      p_traceback = None, p_read_calls = [], exit_status = 1\<rparr>"
  using no_arguments_usage [of env_no_disc "''./get_musicbrainz_discid.py''"]
  by (simp add: env_no_disc_def newline_def)

text \<open>
  C8. \<^verbatim>\<open>discid.read\<close> is called at most once; when it is called, the import has
  succeeded, the argument list has at least two entries and the one call is on
  \<^verbatim>\<open>sys.argv[1]\<close>. When that call raises \<^verbatim>\<open>DiscError\<close>, the run is one call, the
  error line and exit status 1: no second call.
\<close>

theorem read_called_at_most_once:
  "length (p_read_calls (run env argv)) \<le> 1
   \<and> (p_read_calls (run env argv) \<noteq> [] \<longrightarrow>
        import_discid env = None \<and> 2 \<le> length argv
        \<and> p_read_calls (run env argv) = [argv ! 1])
   \<and> (import_discid env = None \<and> 2 \<le> length argv
        \<and> discid_read env (argv ! 1) = Read_raises (DiscError m) \<longrightarrow>
        run env argv =
          \<lparr>p_stdout = [], p_stderr = ''ERROR: '' @ m @ newline, p_traceback = None,
           p_read_calls = [argv ! 1], exit_status = 1\<rparr>)"
  by (simp add: read_calls_run run_disc_error)

theorem read_called_at_most_once_witness:
  "length (p_read_calls (run env_no_disc [''prog'', ''/dev/sr0''])) \<le> 1
   \<and> p_read_calls (run env_no_disc [''prog'', ''/dev/sr0'']) \<noteq> []
   \<and> import_discid env_no_disc = None \<and> 2 \<le> length [''prog'', ''/dev/sr0'']
   \<and> discid_read env_no_disc ([''prog'', ''/dev/sr0''] ! 1)
       = Read_raises (DiscError ''no disc in drive'')
   \<and> run env_no_disc [''prog'', ''/dev/sr0''] =
        \<lparr>p_stdout = [], p_stderr = ''ERROR: no disc in drive'' @ [CHR 0x0A],
         p_traceback = None, p_read_calls = [''/dev/sr0''], exit_status = 1\<rparr>"
  using read_called_at_most_once
    [of env_no_disc "[''prog'', ''/dev/sr0'']" "''no disc in drive''"]
  by (simp add: env_no_disc_def newline_def)

text \<open>
  C9. With two or more positional arguments the script does what it does with the first
  alone: the module body and the process are equal to those of the argument list cut
  after the device. The error stream never holds a usage line, and when the library
  loads the one provider call is on the first positional argument.
\<close>

theorem extra_arguments_ignored:
  "get_musicbrainz_discid env (prog # device # rest) =
     get_musicbrainz_discid env [prog, device]
   \<and> run env (prog # device # rest) = run env [prog, device]
   \<and> p_stderr (run env (prog # device # rest)) \<noteq> usage_line p
   \<and> (import_discid env = None \<longrightarrow>
        p_read_calls (run env (prog # device # rest)) = [device])"
proof -
  have "p_stderr (run env (prog # device # rest)) \<noteq> usage_line p"
    by (rule no_usage_with_device) simp
  moreover have "p_read_calls (run env (prog # device # rest)) = [device]"
    if "import_discid env = None"
    using that by (simp add: read_calls_run)
  ultimately show ?thesis
    using script_extra_arguments [of env prog device rest]
      run_extra_arguments [of env prog device rest]
    by blast
qed

theorem extra_arguments_ignored_witness:
  "get_musicbrainz_discid env_ok [''prog'', ''/dev/sr0'', ''extra'', ''more''] =
     get_musicbrainz_discid env_ok [''prog'', ''/dev/sr0'']
   \<and> run env_ok [''prog'', ''/dev/sr0'', ''extra'', ''more''] =
       \<lparr>p_stdout = ''abc123XYZ'' @ [CHR 0x0A], p_stderr = [], p_traceback = None,
        p_read_calls = [''/dev/sr0''], exit_status = 0\<rparr>
   \<and> import_discid env_ok = None
   \<and> p_read_calls (run env_ok [''prog'', ''/dev/sr0'', ''extra'', ''more'']) = [''/dev/sr0'']"
  using extra_arguments_ignored
    [of env_ok "''prog''" "''/dev/sr0''" "[''extra'', ''more'']" "''prog''"]
  by (simp add: run_read_ok env_ok_def newline_def)

text \<open>
  C10. When the read raises an exception that is no \<^verbatim>\<open>DiscError\<close>, the script prints
  nothing, neither to standard output nor to the error stream, and the module body ends
  with that exception raised, after the one call of the provider.
\<close>

theorem other_exception_propagates:
  assumes "import_discid env = None"
    and "2 \<le> length argv"
    and "discid_read env (argv ! 1) = Read_raises e"
    and "\<not> is_DiscError e"
  shows "get_musicbrainz_discid env argv =
     (\<lparr>stdout = [], stderr = [], read_calls = [argv ! 1]\<rparr>, Raised e)"
  using assms
  by (simp add: get_musicbrainz_discid_def check_argv_def read_disc_def
      read_handler_def start_def)

theorem other_exception_propagates_witness:
  "import_discid env_broken = None \<and> 2 \<le> length [''prog'', ''/dev/sr0'']
   \<and> discid_read env_broken ([''prog'', ''/dev/sr0''] ! 1)
       = Read_raises (OtherException ''OSError'' ''device busy'')
   \<and> \<not> is_DiscError (OtherException ''OSError'' ''device busy'')
   \<and> get_musicbrainz_discid env_broken [''prog'', ''/dev/sr0''] =
       (\<lparr>stdout = [], stderr = [], read_calls = [''/dev/sr0'']\<rparr>,
        Raised (OtherException ''OSError'' ''device busy''))"
  using other_exception_propagates
    [of env_broken "[''prog'', ''/dev/sr0'']" "OtherException ''OSError'' ''device busy''"]
  by (simp add: env_broken_def)

end
